theory Spec2Isabelle
  imports Complex_Main
begin

section \<open>Python values used by generate_sample_zkb_statement.py\<close>

subsection \<open>Strings\<close>

text \<open>
  A Python \<open>str\<close> is a sequence of Unicode code points, and slicing and \<open>len\<close> count code
  points. The script's texts contain \<open>U+00FC\<close>, \<open>U+00E4\<close>, \<open>U+00E0\<close>, \<open>U+2705\<close> and
  \<open>U+274C\<close>, so a string is modelled as the list of its code points. \<open>ascii\<close> embeds an
  ASCII literal; the other code points are written as numbers.
\<close>

type_synonym str = "nat list"

definition ascii :: "string \<Rightarrow> str" where
  "ascii s = map of_char s"

text \<open>\<open>s.replace(old, new)\<close> for one-character \<open>old\<close> and \<open>new\<close>.\<close>

definition replace :: "nat \<Rightarrow> nat \<Rightarrow> str \<Rightarrow> str" where
  "replace old new s = map (\<lambda>c. if c = old then new else c) s"

subsection \<open>Binary64 floating point\<close>

text \<open>
  A Python \<open>float\<close> is an IEEE 754 binary64 number. \<open>Float s m e\<close> stands for the finite
  value \<open>(-1)^s * m * 2^e\<close>, where either \<open>m = 0\<close> and \<open>e = 0\<close> (the zero with sign \<open>s\<close>) or
  \<open>2^52 \<le> m < 2^53\<close>. Every operation computes its exact result over the integers and
  rounds it once, to nearest with ties to even, in \<open>nearest_float\<close>. The exponent is not
  bounded: overflow to infinity and gradual underflow are not modelled (every number of
  this program has magnitude between \<open>2^-7\<close> and \<open>2^13\<close>), and there is no NaN.
\<close>

datatype float64 = Float (fneg: bool) (fmant: int) (fexp: int)

definition pow2 :: "int \<Rightarrow> int" where
  "pow2 k = 2 ^ nat k"

text \<open>\<open>int.bit_length\<close>: the number of binary digits of a positive integer.\<close>

fun bit_length :: "int \<Rightarrow> int" where
  "bit_length n = (if n \<le> 0 then 0 else 1 + bit_length (n div 2))"

declare bit_length.simps [simp del]

text \<open>The integer nearest to \<open>n / d\<close> (for \<open>0 \<le> n\<close>, \<open>0 < d\<close>), ties to the even one.\<close>

definition round_half_even :: "int \<Rightarrow> int \<Rightarrow> int" where
  "round_half_even n d =
     (let q = n div d; r = n mod d
      in if 2 * r > d \<or> (2 * r = d \<and> odd q) then q + 1 else q)"

text \<open>
  The binary64 number nearest to \<open>(-1)^s * n / d\<close> (for \<open>0 \<le> n\<close>, \<open>0 < d\<close>). The scaling
  \<open>j\<close> is chosen so that \<open>n * 2^j / d\<close> lies in \<open>[2^52, 2^53)\<close>; its rounding is the mantissa.
\<close>

definition nearest_float :: "bool \<Rightarrow> int \<Rightarrow> int \<Rightarrow> float64" where
  "nearest_float s n d =
     (if n = 0 then Float s 0 0
      else let j0 = 53 + bit_length d - bit_length n;
               j = (if (n * pow2 j0) div (d * pow2 (- j0)) \<ge> pow2 53 then j0 - 1 else j0);
               m = round_half_even (n * pow2 j) (d * pow2 (- j))
           in if m = pow2 53 then Float s (pow2 52) (1 - j) else Float s m (- j))"

text \<open>
  The float literal with decimal digits \<open>n\<close>, the last \<open>k\<close> of them after the point:
  \<open>456.90\<close> is \<open>float_lit 45690 2\<close>.
\<close>

definition float_lit :: "int \<Rightarrow> nat \<Rightarrow> float64" where
  "float_lit n k = nearest_float False n (10 ^ k)"

definition float_of_int :: "int \<Rightarrow> float64" where
  "float_of_int n = nearest_float (n < 0) \<bar>n\<bar> 1"

definition sval :: "float64 \<Rightarrow> int" where
  "sval x = (if fneg x then - fmant x else fmant x)"

definition fadd :: "float64 \<Rightarrow> float64 \<Rightarrow> float64" where
  "fadd x y =
     (let e = min (fexp x) (fexp y);
          s = sval x * pow2 (fexp x - e) + sval y * pow2 (fexp y - e)
      in if s = 0 then Float (fneg x \<and> fneg y) 0 0
         else nearest_float (s < 0) (\<bar>s\<bar> * pow2 e) (pow2 (- e)))"

definition fminus :: "float64 \<Rightarrow> float64" where
  "fminus x = Float (\<not> fneg x) (fmant x) (fexp x)"

definition fabs :: "float64 \<Rightarrow> float64" where
  "fabs x = Float False (fmant x) (fexp x)"

definition fsub :: "float64 \<Rightarrow> float64 \<Rightarrow> float64" where
  "fsub x y = fadd x (fminus y)"

text \<open>Comparison is exact: both values are brought to the smaller exponent.\<close>

definition fless :: "float64 \<Rightarrow> float64 \<Rightarrow> bool" where
  "fless x y =
     (let e = min (fexp x) (fexp y)
      in sval x * pow2 (fexp x - e) < sval y * pow2 (fexp y - e))"

subsection \<open>Numbers\<close>

text \<open>
  A Python number of this script is an \<open>int\<close> or a \<open>float\<close>. Arithmetic on two ints stays
  in the integers; as soon as one operand is a float the other is converted and the
  float operation is used. Comparison of an int with a float is by exact value.
\<close>

datatype pynum = PInt int | PFloat float64

fun to_float :: "pynum \<Rightarrow> float64" where
  "to_float (PInt n) = float_of_int n"
| "to_float (PFloat x) = x"

text \<open>The exact value of a number as an unnormalised mantissa and exponent.\<close>

fun raw :: "pynum \<Rightarrow> float64" where
  "raw (PInt n) = Float (n < 0) \<bar>n\<bar> 0"
| "raw (PFloat x) = x"

fun py_add :: "pynum \<Rightarrow> pynum \<Rightarrow> pynum" where
  "py_add (PInt a) (PInt b) = PInt (a + b)"
| "py_add a b = PFloat (fadd (to_float a) (to_float b))"

fun py_sub :: "pynum \<Rightarrow> pynum \<Rightarrow> pynum" where
  "py_sub (PInt a) (PInt b) = PInt (a - b)"
| "py_sub a b = PFloat (fsub (to_float a) (to_float b))"

fun py_neg :: "pynum \<Rightarrow> pynum" where
  "py_neg (PInt a) = PInt (- a)"
| "py_neg (PFloat x) = PFloat (fminus x)"

fun py_abs :: "pynum \<Rightarrow> pynum" where
  "py_abs (PInt a) = PInt \<bar>a\<bar>"
| "py_abs (PFloat x) = PFloat (fabs x)"

definition py_lt :: "pynum \<Rightarrow> pynum \<Rightarrow> bool" where
  "py_lt a b = fless (raw a) (raw b)"

definition py_gt :: "pynum \<Rightarrow> pynum \<Rightarrow> bool" where
  "py_gt a b = py_lt b a"

text \<open>
  The builtin \<open>sum\<close> of CPython up to version 3.11: starts at the int \<open>0\<close> and adds
  the items from left to right with \<open>+\<close>.
\<close>

definition py_sum :: "pynum list \<Rightarrow> pynum" where
  "py_sum xs = fold (\<lambda>x s. py_add s x) xs (PInt 0)"

text \<open>
  The builtin \<open>sum\<close> of CPython from version 3.12 on. Ints are added as ints until the
  first float; that float is added with \<open>+\<close>, and from then on the floats are added with
  Neumaier's compensation: \<open>c\<close> collects the rounding errors of the additions and is added
  to the result at the end when it is not zero. An int met after the first float is
  converted and added without compensation.
\<close>

fun neumaier :: "float64 \<Rightarrow> float64 \<Rightarrow> pynum list \<Rightarrow> float64" where
  "neumaier f c [] = (if fmant c \<noteq> 0 then fadd f c else f)"
| "neumaier f c (PFloat x # xs) =
     (let t = fadd f x
      in neumaier t
           (if \<not> fless (fabs f) (fabs x) then fadd c (fadd (fsub f t) x)
            else fadd c (fadd (fsub x t) f))
           xs)"
| "neumaier f c (PInt n # xs) = neumaier (fadd f (float_of_int n)) c xs"

fun sum_from_int :: "int \<Rightarrow> pynum list \<Rightarrow> pynum" where
  "sum_from_int i [] = PInt i"
| "sum_from_int i (PInt n # xs) = sum_from_int (i + n) xs"
| "sum_from_int i (PFloat x # xs) =
     PFloat (neumaier (fadd (float_of_int i) x) (Float False 0 0) xs)"

definition py_sum_compensated :: "pynum list \<Rightarrow> pynum" where
  "py_sum_compensated xs = sum_from_int 0 xs"

text \<open>The exact rational value of a number, used to state that an operation did not round.\<close>

definition float_value :: "float64 \<Rightarrow> rat" where
  "float_value x =
     (if fexp x \<ge> 0 then of_int (sval x * pow2 (fexp x))
      else of_int (sval x) / of_int (pow2 (- fexp x)))"

fun exact_value :: "pynum \<Rightarrow> rat" where
  "exact_value (PInt n) = of_int n"
| "exact_value (PFloat x) = float_value x"

subsection \<open>Formatting\<close>

definition digit :: "int \<Rightarrow> nat" where
  "digit d = 48 + nat d"

text \<open>The decimal digits of a non-negative integer, as \<open>str(n)\<close> gives them.\<close>

function digits :: "int \<Rightarrow> str" where
  "digits n = (if n < 10 then [digit n] else digits (n div 10) @ [digit (n mod 10)])"
  by pat_completeness auto
termination
  by (relation "measure nat") auto

declare digits.simps [simp del]

text \<open>The \<open>,\<close> option of the format specification: a comma before every group of three digits.\<close>

function group3 :: "str \<Rightarrow> str" where
  "group3 ds =
     (if length ds \<le> 3 then ds
      else group3 (take (length ds - 3) ds) @ [44] @ drop (length ds - 3) ds)"
  by pat_completeness auto
termination
  by (relation "measure length") auto

declare group3.simps [simp del]

text \<open>
  \<open>format(x, ",.2f")\<close> for a float: the exact value is rounded to hundredths (ties to
  even), the integer part is grouped, and a minus sign is printed whenever the sign bit
  is set, also for \<open>-0.0\<close>.
\<close>

definition format_2f :: "float64 \<Rightarrow> str" where
  "format_2f x =
     (let c = round_half_even (fmant x * 100 * pow2 (fexp x)) (pow2 (- fexp x))
      in (if fneg x then [45] else []) @ group3 (digits (c div 100)) @ [46]
         @ [digit (c mod 100 div 10), digit (c mod 10)])"

definition py_format_2f :: "pynum \<Rightarrow> str" where
  "py_format_2f a = format_2f (to_float a)"

section \<open>The drawing canvas\<close>

text \<open>
  The drawing library is not part of the repository. A canvas is modelled by what the
  script does with it: the file name and page size it was created with and the calls
  made on it, in order. \<open>showPage\<close> ends the current page and \<open>save\<close> writes the file.
\<close>

datatype call =
    SetFont str int
  | DrawString pynum pynum str
  | DrawRightString pynum pynum str
  | Line pynum pynum pynum pynum
  | ShowPage
  | Save

record canvas =
  filename :: str
  pagesize :: "pynum \<times> pynum"
  calls :: "call list"

definition Canvas :: "str \<Rightarrow> pynum \<times> pynum \<Rightarrow> canvas" where
  "Canvas name ps = \<lparr>filename = name, pagesize = ps, calls = []\<rparr>"

definition setFont :: "canvas \<Rightarrow> str \<Rightarrow> int \<Rightarrow> canvas" where
  "setFont c name pt = c\<lparr>calls := calls c @ [SetFont name pt]\<rparr>"

definition drawString :: "canvas \<Rightarrow> pynum \<Rightarrow> pynum \<Rightarrow> str \<Rightarrow> canvas" where
  "drawString c x y text = c\<lparr>calls := calls c @ [DrawString x y text]\<rparr>"

definition drawRightString :: "canvas \<Rightarrow> pynum \<Rightarrow> pynum \<Rightarrow> str \<Rightarrow> canvas" where
  "drawRightString c x y text = c\<lparr>calls := calls c @ [DrawRightString x y text]\<rparr>"

definition line :: "canvas \<Rightarrow> pynum \<Rightarrow> pynum \<Rightarrow> pynum \<Rightarrow> pynum \<Rightarrow> canvas" where
  "line c x1 y1 x2 y2 = c\<lparr>calls := calls c @ [Line x1 y1 x2 y2]\<rparr>"

definition showPage :: "canvas \<Rightarrow> canvas" where
  "showPage c = c\<lparr>calls := calls c @ [ShowPage]\<rparr>"

definition save :: "canvas \<Rightarrow> canvas" where
  "save c = c\<lparr>calls := calls c @ [Save]\<rparr>"

text \<open>
  Modelled from the spec: the page size \<open>A4\<close> that the script imports from the drawing
  library, "A4: 595 x 842 points equivalent".
\<close>

definition A4_points :: "pynum \<times> pynum" where
  "A4_points = (PInt 595, PInt 842)"

text \<open>
  The same constant as the drawing library computes it, \<open>(210 * mm, 297 * mm)\<close> with
  \<open>mm = 72 / 25.4\<close> in binary64: \<open>595.2755905511812\<close> by \<open>841.8897637795277\<close>.
\<close>

definition A4_reportlab :: "pynum \<times> pynum" where
  "A4_reportlab =
     (PFloat (float_lit 5952755905511812 13), PFloat (float_lit 8418897637795277 13))"

section \<open>create_zkb_statement\<close>

type_synonym transaction = "str \<times> str \<times> pynum"

definition transactions :: "transaction list" where
  "transactions =
    [(ascii ''31.01.2026'',
      ascii ''Lohnzahlung Januar 2026'', py_neg (PFloat (float_lit 750000 2))),
     (ascii ''30.01.2026'',
      ascii ''Miete Wohnung Z'' @ [252] @ ascii ''rich'', PFloat (float_lit 185000 2)),
     (ascii ''29.01.2026'',
      ascii ''CSS Krankenkasse Pr'' @ [228] @ ascii ''mie'', PFloat (float_lit 45690 2)),
     (ascii ''28.01.2026'',
      ascii ''COOP Z'' @ [252] @ ascii ''rich, Kaufvertrag'', PFloat (float_lit 8945 2)),
     (ascii ''28.01.2026'',
      ascii ''Migros Oerlikon, Einkauf'', PFloat (float_lit 6780 2)),
     (ascii ''27.01.2026'',
      ascii ''SBB Monatsabo Zone 110'', PFloat (float_lit 8900 2)),
     (ascii ''26.01.2026'',
      ascii ''Swisscom AG Rechnung'', PFloat (float_lit 7900 2)),
     (ascii ''25.01.2026'',
      ascii ''Restaurant Kronenhalle'', PFloat (float_lit 12550 2)),
     (ascii ''24.01.2026'',
      ascii ''Denner Z'' @ [252] @ ascii ''rich HB'', PFloat (float_lit 3420 2)),
     (ascii ''23.01.2026'',
      ascii ''VBZ Tram/Bus Ticket'', PFloat (float_lit 1240 2)),
     (ascii ''22.01.2026'',
      ascii ''Manor Z'' @ [252] @ ascii ''rich, Kleidung'', PFloat (float_lit 18790 2)),
     (ascii ''21.01.2026'',
      ascii ''Spotify Premium'', PFloat (float_lit 1295 2)),
     (ascii ''20.01.2026'',
      ascii ''Netflix Abonnement'', PFloat (float_lit 1790 2)),
     (ascii ''19.01.2026'',
      ascii ''COOP Z'' @ [252] @ ascii ''rich Bahnhofstrasse'', PFloat (float_lit 5630 2)),
     (ascii ''18.01.2026'',
      ascii ''Migros Basel, Wocheneinkauf'', PFloat (float_lit 14375 2)),
     (ascii ''17.01.2026'',
      ascii ''Starbucks Z'' @ [252] @ ascii ''rich HB'', PFloat (float_lit 850 2)),
     (ascii ''16.01.2026'',
      ascii ''McDonald's Z'' @ [252] @ ascii ''rich'', PFloat (float_lit 1540 2)),
     (ascii ''15.01.2026'',
      ascii ''Helsana Krankenkasse Zusatz'', PFloat (float_lit 12350 2)),
     (ascii ''14.01.2026'',
      ascii ''EWZ Stromrechnung'', PFloat (float_lit 14500 2)),
     (ascii ''13.01.2026'',
      ascii ''Digitec Galaxus AG'', PFloat (float_lit 23490 2)),
     (ascii ''12.01.2026'',
      ascii ''Amazon EU S.'' @ [224] @ ascii '' r.l.'', PFloat (float_lit 6745 2)),
     (ascii ''11.01.2026'',
      ascii ''COOP Z'' @ [252] @ ascii ''rich Seefeld'', PFloat (float_lit 4520 2)),
     (ascii ''10.01.2026'',
      ascii ''Migros Z'' @ [252] @ ascii ''rich City'', PFloat (float_lit 7890 2)),
     (ascii ''09.01.2026'',
      ascii ''SBB Billett Z'' @ [252] @ ascii ''rich-Bern'', PFloat (float_lit 5200 2)),
     (ascii ''08.01.2026'',
      ascii ''Mobility Carsharing'', PFloat (float_lit 8900 2)),
     (ascii ''07.01.2026'',
      ascii ''Parkhaus Z'' @ [252] @ ascii ''rich HB'', PFloat (float_lit 2400 2)),
     (ascii ''06.01.2026'',
      ascii ''Zalando SE'', PFloat (float_lit 14580 2)),
     (ascii ''05.01.2026'',
      ascii ''IKEA Z'' @ [252] @ ascii ''rich'', PFloat (float_lit 26750 2)),
     (ascii ''04.01.2026'',
      ascii ''Coop Bau+Hobby'', PFloat (float_lit 8990 2)),
     (ascii ''03.01.2026'',
      ascii ''Apotheke am Central'', PFloat (float_lit 3450 2)),
     (ascii ''02.01.2026'',
      ascii ''Fitness First Z'' @ [252] @ ascii ''rich'', PFloat (float_lit 9900 2)),
     (ascii ''01.01.2026'',
      ascii ''Jahresgeb'' @ [252] @ ascii ''hr Konto'', PFloat (float_lit 6000 2))]"

definition default_filename :: str where
  "default_filename = ascii ''ZKB_Sample_Statement_January_2026.pdf''"

text \<open>
  Lines 24 to 58: the header block and the table header. \<open>now\<close> is the text that
  \<open>datetime.now().strftime('%d.%m.%Y')\<close> returns when the script runs. The result is the
  canvas and the cursor \<open>y\<close> of the first row.
\<close>

definition statement_header :: "pynum \<Rightarrow> pynum \<Rightarrow> str \<Rightarrow> canvas \<Rightarrow> canvas \<times> pynum" where
  "statement_header width height now c0 =
     (let c = setFont c0 (ascii ''Helvetica-Bold'') 18;
          c = drawString c (PInt 40) (py_sub height (PInt 60))
                (ascii ''Z'' @ [252] @ ascii ''rcher Kantonalbank'');
          c = setFont c (ascii ''Helvetica'') 10;
          c = drawString c (PInt 40) (py_sub height (PInt 80)) (ascii ''Bahnhofstrasse 9'');
          c = drawString c (PInt 40) (py_sub height (PInt 95))
                (ascii ''8001 Z'' @ [252] @ ascii ''rich'');
          c = setFont c (ascii ''Helvetica-Bold'') 12;
          c = drawString c (PInt 40) (py_sub height (PInt 130))
                (ascii ''Kontoauszug / Account Statement'');
          c = setFont c (ascii ''Helvetica'') 10;
          c = drawString c (PInt 40) (py_sub height (PInt 150))
                (ascii ''Konto / Account: CH93 0070 0110 0012 3456 7'');
          c = drawString c (PInt 40) (py_sub height (PInt 165))
                (ascii ''Periode / Period: 01.01.2026 - 31.01.2026'');
          c = drawString c (PInt 40) (py_sub height (PInt 180))
                (ascii ''Erstellt / Created: '' @ now);
          c = drawString c (py_sub width (PInt 200)) (py_sub height (PInt 150))
                (ascii ''Max Mustermann'');
          c = drawString c (py_sub width (PInt 200)) (py_sub height (PInt 165))
                (ascii ''Musterstrasse 123'');
          c = drawString c (py_sub width (PInt 200)) (py_sub height (PInt 180))
                (ascii ''8000 Z'' @ [252] @ ascii ''rich'');
          y = py_sub height (PInt 220);
          c = setFont c (ascii ''Helvetica-Bold'') 9;
          c = drawString c (PInt 40) y (ascii ''Datum'');
          c = drawString c (PInt 100) y (ascii ''Buchungstext'');
          c = drawString c (py_sub width (PInt 120)) y (ascii ''Betrag CHF'');
          c = line c (PInt 40) (py_sub y (PInt 5)) (py_sub width (PInt 40)) (py_sub y (PInt 5));
          y = py_sub y (PInt 25);
          c = setFont c (ascii ''Helvetica'') 9
      in (c, y))"

text \<open>Lines 107 to 113: the amount of a row as text.\<close>

definition amount_str :: "pynum \<Rightarrow> str" where
  "amount_str amount =
     (if py_lt amount (PInt 0) then replace 44 39 (py_format_2f (py_abs amount))
      else replace 44 39 (py_format_2f amount))"

text \<open>Lines 97 to 117: the loop over the records, on the canvas and the cursor.\<close>

fun transaction_rows ::
  "pynum \<Rightarrow> pynum \<Rightarrow> transaction list \<Rightarrow> canvas \<times> pynum \<Rightarrow> canvas \<times> pynum" where
  "transaction_rows width height [] (c, y) = (c, y)"
| "transaction_rows width height ((date, description, amount) # rest) (c0, y0) =
     (let (c, y) = (if py_lt y0 (PInt 100)
                    then (setFont (showPage c0) (ascii ''Helvetica'') 9, py_sub height (PInt 60))
                    else (c0, y0));
          c = drawString c (PInt 40) y date;
          c = drawString c (PInt 100) y (take 45 description);
          c = drawRightString c (py_sub width (PInt 40)) y (amount_str amount);
          y = py_sub y (PInt 15)
      in transaction_rows width height rest (c, y))"

text \<open>Lines 127 to 131: the totals and the balance text.\<close>

definition total_income :: "transaction list \<Rightarrow> pynum" where
  "total_income txs = py_sum [py_abs amt. (date, desc, amt) \<leftarrow> txs, py_lt amt (PInt 0)]"

definition total_expenses :: "transaction list \<Rightarrow> pynum" where
  "total_expenses txs = py_sum [amt. (date, desc, amt) \<leftarrow> txs, py_gt amt (PInt 0)]"

definition final_balance :: "transaction list \<Rightarrow> pynum" where
  "final_balance txs = py_sub (total_income txs) (total_expenses txs)"

definition balance_str :: "transaction list \<Rightarrow> str" where
  "balance_str txs = replace 44 39 (ascii ''CHF '' @ py_format_2f (final_balance txs))"

text \<open>Lines 119 to 140: the closing line, the balance, the disclaimer and \<open>save\<close>.\<close>

definition statement_footer ::
  "pynum \<Rightarrow> transaction list \<Rightarrow> canvas \<times> pynum \<Rightarrow> canvas" where
  "statement_footer width txs cy =
     (let (c, y) = cy;
          c = line c (PInt 40) (py_sub y (PInt 10)) (py_sub width (PInt 40)) (py_sub y (PInt 10));
          y = py_sub y (PInt 25);
          c = setFont c (ascii ''Helvetica-Bold'') 10;
          c = drawString c (PInt 40) y (ascii ''Saldo / Balance:'');
          c = drawRightString c (py_sub width (PInt 40)) y (balance_str txs);
          y = py_sub y (PInt 40);
          c = setFont c (ascii ''Helvetica'') 7;
          c = drawString c (PInt 40) y
                (ascii ''Z'' @ [252] @ ascii ''rcher Kantonalbank - Alle Angaben ohne Gew''
                 @ [228] @ ascii ''hr'');
          c = drawString c (PInt 40) (py_sub y (PInt 10))
                (ascii ''Bitte pr'' @ [252]
                 @ ascii ''fen Sie die Angaben und melden Sie Unstimmigkeiten innert 30 Tagen.'')
      in save c)"

text \<open>Lines 142 to 150: the arguments of the \<open>print\<close> calls, in order.\<close>

definition summary :: "str \<Rightarrow> transaction list \<Rightarrow> str list" where
  "summary name txs =
     [[9989] @ ascii '' Created: '' @ name,
      [10] @ ascii ''Statement Summary:'',
      ascii ''  Period: January 2026'',
      ascii ''  Transactions: '' @ digits (int (length txs)),
      replace 44 39 (ascii ''  Total Income: CHF '' @ py_format_2f (total_income txs)),
      replace 44 39 (ascii ''  Total Expenses: CHF '' @ py_format_2f (total_expenses txs)),
      replace 44 39 (ascii ''  Final Balance: CHF '' @ py_format_2f (final_balance txs)),
      [10] @ ascii ''Use this PDF to test the Z'' @ [252] @ ascii ''riBudget app!'']"

text \<open>
  The function: the page size \<open>A4\<close> (a module-level import) and the clock text \<open>now\<close> are
  parameters. The result is the saved canvas and what was printed.
\<close>

definition create_zkb_statement ::
  "pynum \<times> pynum \<Rightarrow> str \<Rightarrow> str \<Rightarrow> canvas \<times> str list" where
  "create_zkb_statement A4 now name =
     (let c = Canvas name A4;
          (width, height) = A4;
          cy = statement_header width height now c;
          cy = transaction_rows width height transactions cy;
          c = statement_footer width transactions cy
      in (c, summary name transactions))"

section \<open>The script\<close>

text \<open>
  Running the file executes the module from the top: the imports of lines 12 to 16, the
  definition of the function, and then the guarded block of lines 153 to 164. An import
  of the drawing library raises \<open>ImportError\<close> when the library is not installed. An
  exception that nothing catches ends the interpreter with a traceback on standard error
  and exit status 1; \<open>sys.exit(1)\<close> ends it with status 1; reaching the end of the module
  ends it with status 0.
\<close>

datatype exc = ImportError

datatype status = Exit int | Uncaught exc

record run =
  stdout :: "str list"
  status :: status
  document :: "canvas option"

fun exit_code :: "status \<Rightarrow> int" where
  "exit_code (Exit n) = n"
| "exit_code (Uncaught e) = 1"

definition import_reportlab :: "bool \<Rightarrow> exc + unit" where
  "import_reportlab installed = (if installed then Inr () else Inl ImportError)"

definition install_hint :: "str list" where
  "install_hint =
     [[10060] @ ascii '' Error: reportlab not installed'',
      [10] @ ascii ''Install it with:'',
      ascii ''  pip3 install reportlab'']"

definition script :: "bool \<Rightarrow> pynum \<times> pynum \<Rightarrow> str \<Rightarrow> run" where
  "script installed A4 now =
     (case import_reportlab installed of
        Inl e \<Rightarrow> \<lparr>stdout = [], status = Uncaught e, document = None\<rparr>
      | Inr _ \<Rightarrow>
          (case import_reportlab installed of
             Inl ImportError \<Rightarrow> \<lparr>stdout = install_hint, status = Exit 1, document = None\<rparr>
           | Inr _ \<Rightarrow>
               (let (c, out) = create_zkb_statement A4 now default_filename
                in \<lparr>stdout = out, status = Exit 0, document = Some c\<rparr>)))"

section \<open>Vocabulary of the claims\<close>

text \<open>The texts drawn by a sequence of calls, in drawing order.\<close>

fun texts :: "call list \<Rightarrow> str list" where
  "texts [] = []"
| "texts (DrawString x y t # cs) = t # texts cs"
| "texts (DrawRightString x y t # cs) = t # texts cs"
| "texts (c # cs) = texts cs"

text \<open>The left-aligned texts drawn at the horizontal position \<open>x\<close>.\<close>

fun column :: "pynum \<Rightarrow> call list \<Rightarrow> str list" where
  "column x [] = []"
| "column x (DrawString x' y t # cs) = (if x' = x then t # column x cs else column x cs)"
| "column x (c # cs) = column x cs"

text \<open>A call draws nothing below 100 units from the page bottom.\<close>

fun above_margin :: "call \<Rightarrow> bool" where
  "above_margin (DrawString x y t) = (\<not> py_lt y (PInt 100))"
| "above_margin (DrawRightString x y t) = (\<not> py_lt y (PInt 100))"
| "above_margin (Line x1 y1 x2 y2) = (\<not> py_lt y1 (PInt 100) \<and> \<not> py_lt y2 (PInt 100))"
| "above_margin c = True"

text \<open>
  One iteration of the loop of lines 97 to 117, read off \<open>transaction_rows\<close>: the cursor
  at which the row is drawn and the calls the iteration makes (lemma \<open>rows_step\<close> below).
\<close>

definition row_cursor :: "pynum \<Rightarrow> pynum \<Rightarrow> pynum" where
  "row_cursor height y = (if py_lt y (PInt 100) then py_sub height (PInt 60) else y)"

definition row_calls :: "pynum \<Rightarrow> pynum \<Rightarrow> transaction \<Rightarrow> pynum \<Rightarrow> call list" where
  "row_calls width height tx y =
     (case tx of (date, description, amount) \<Rightarrow>
        (if py_lt y (PInt 100) then [ShowPage, SetFont (ascii ''Helvetica'') 9] else [])
        @ [DrawString (PInt 40) (row_cursor height y) date,
           DrawString (PInt 100) (row_cursor height y) (take 45 description),
           DrawRightString (py_sub width (PInt 40)) (row_cursor height y) (amount_str amount)])"

text \<open>The values of \<open>y\<close> that line 99 tests, one for each record.\<close>

fun cursors :: "pynum \<Rightarrow> transaction list \<Rightarrow> pynum \<Rightarrow> pynum list" where
  "cursors height [] y = []"
| "cursors height (tx # txs) y =
     y # cursors height txs (py_sub (row_cursor height y) (PInt 15))"

text \<open>The calls that each part of the function makes, taken from a fresh canvas.\<close>

definition header_emitted :: "pynum \<Rightarrow> pynum \<Rightarrow> str \<Rightarrow> call list" where
  "header_emitted width height now =
     calls (fst (statement_header width height now (Canvas [] (width, height))))"

definition rows_emitted :: "pynum \<Rightarrow> pynum \<Rightarrow> transaction list \<Rightarrow> pynum \<Rightarrow> call list" where
  "rows_emitted width height txs y =
     calls (fst (transaction_rows width height txs (Canvas [] (width, height), y)))"

definition footer_emitted :: "pynum \<Rightarrow> transaction list \<Rightarrow> pynum \<Rightarrow> call list" where
  "footer_emitted width txs y =
     calls (statement_footer width txs (Canvas [] (width, width), y))"

text \<open>The cursor of the first row: line 47 and line 57.\<close>

definition first_row :: "pynum \<Rightarrow> pynum" where
  "first_row height = py_sub (py_sub height (PInt 220)) (PInt 25)"

text \<open>The cursor after the loop has run over the records.\<close>

definition after_rows :: "pynum \<Rightarrow> transaction list \<Rightarrow> pynum \<Rightarrow> pynum" where
  "after_rows height txs y =
     snd (transaction_rows (PInt 0) height txs (Canvas [] (PInt 0, height), y))"

text \<open>The texts of one table row.\<close>

definition row_texts :: "transaction \<Rightarrow> str list" where
  "row_texts tx = (case tx of (date, description, amount) \<Rightarrow>
     [date, take 45 description, amount_str amount])"

text \<open>
  The steps of the record loop as the specification words them (4a to 4e): break the page
  when the cursor is below the threshold, draw the three cells, advance the cursor.
\<close>

definition spec_page_break :: "pynum \<Rightarrow> canvas \<times> pynum \<Rightarrow> canvas \<times> pynum" where
  "spec_page_break height cy =
     (case cy of (c, y) \<Rightarrow>
        if py_lt y (PInt 100)
        then (setFont (showPage c) (ascii ''Helvetica'') 9, py_sub height (PInt 60))
        else (c, y))"

definition spec_draw_row :: "pynum \<Rightarrow> transaction \<Rightarrow> canvas \<times> pynum \<Rightarrow> canvas \<times> pynum" where
  "spec_draw_row width tx cy =
     (case tx of (date, description, amount) \<Rightarrow> case cy of (c, y) \<Rightarrow>
        (drawRightString
           (drawString (drawString c (PInt 40) y date) (PInt 100) y (take 45 description))
           (py_sub width (PInt 40)) y (amount_str amount), y))"

definition spec_advance :: "canvas \<times> pynum \<Rightarrow> canvas \<times> pynum" where
  "spec_advance cy = (case cy of (c, y) \<Rightarrow> (c, py_sub y (PInt 15)))"

definition spec_rows ::
  "pynum \<Rightarrow> pynum \<Rightarrow> transaction list \<Rightarrow> canvas \<times> pynum \<Rightarrow> canvas \<times> pynum" where
  "spec_rows width height txs cy =
     foldl (\<lambda>cy tx. spec_advance (spec_draw_row width tx (spec_page_break height cy))) cy txs"

text \<open>
  The items that the generator expressions of lines 127 and 128 hand to \<open>sum\<close>, and the
  totals, the balance and the balance text as the interpreters from version 3.12 on
  compute them.
\<close>

definition income_items :: "transaction list \<Rightarrow> pynum list" where
  "income_items txs = [py_abs amt. (date, desc, amt) \<leftarrow> txs, py_lt amt (PInt 0)]"

definition expense_items :: "transaction list \<Rightarrow> pynum list" where
  "expense_items txs = [amt. (date, desc, amt) \<leftarrow> txs, py_gt amt (PInt 0)]"

definition total_income_312 :: "transaction list \<Rightarrow> pynum" where
  "total_income_312 txs = py_sum_compensated (income_items txs)"

definition total_expenses_312 :: "transaction list \<Rightarrow> pynum" where
  "total_expenses_312 txs = py_sum_compensated (expense_items txs)"

definition final_balance_312 :: "transaction list \<Rightarrow> pynum" where
  "final_balance_312 txs = py_sub (total_income_312 txs) (total_expenses_312 txs)"

definition balance_str_312 :: "transaction list \<Rightarrow> str" where
  "balance_str_312 txs = replace 44 39 (ascii ''CHF '' @ py_format_2f (final_balance_312 txs))"



section \<open>Properties of the canvas operations and of the loop\<close>

lemma calls_simps [simp]:
  "calls (setFont c n p) = calls c @ [SetFont n p]"
  "calls (drawString c x y t) = calls c @ [DrawString x y t]"
  "calls (drawRightString c x y t) = calls c @ [DrawRightString x y t]"
  "calls (line c x1 y1 x2 y2) = calls c @ [Line x1 y1 x2 y2]"
  "calls (showPage c) = calls c @ [ShowPage]"
  "calls (save c) = calls c @ [Save]"
  by (simp_all add: setFont_def drawString_def drawRightString_def line_def showPage_def
      save_def)

lemma filename_simps [simp]:
  "filename (setFont c n p) = filename c"
  "filename (drawString c x y t) = filename c"
  "filename (drawRightString c x y t) = filename c"
  "filename (line c x1 y1 x2 y2) = filename c"
  "filename (showPage c) = filename c"
  "filename (save c) = filename c"
  by (simp_all add: setFont_def drawString_def drawRightString_def line_def showPage_def
      save_def)

lemma pagesize_simps [simp]:
  "pagesize (setFont c n p) = pagesize c"
  "pagesize (drawString c x y t) = pagesize c"
  "pagesize (drawRightString c x y t) = pagesize c"
  "pagesize (line c x1 y1 x2 y2) = pagesize c"
  "pagesize (showPage c) = pagesize c"
  "pagesize (save c) = pagesize c"
  by (simp_all add: setFont_def drawString_def drawRightString_def line_def showPage_def
      save_def)

lemma texts_append [simp]: "texts (xs @ ys) = texts xs @ texts ys"
  by (induction xs rule: texts.induct) simp_all

lemma column_append [simp]: "column x (xs @ ys) = column x xs @ column x ys"
  by (induction x xs rule: column.induct) simp_all

text \<open>One iteration of the loop appends \<open>row_calls\<close> and moves the cursor.\<close>

lemma rows_step:
  "transaction_rows w h (tx # txs) (c, y) =
     transaction_rows w h txs
       (c\<lparr>calls := calls c @ row_calls w h tx y\<rparr>, py_sub (row_cursor h y) (PInt 15))"
  by (cases tx)
     (simp add: row_calls_def row_cursor_def Let_def setFont_def showPage_def drawString_def
        drawRightString_def)

lemma rows_calls_from:
  assumes "calls c0 = []"
  shows "calls (fst (transaction_rows w h txs (c, y))) =
           calls c @ calls (fst (transaction_rows w h txs (c0, y)))"
  using assms
proof (induction txs arbitrary: c y c0)
  case Nil
  then show ?case by simp
next
  case (Cons tx txs)
  let ?y = "py_sub (row_cursor h y) (PInt 15)"
  let ?c1 = "c\<lparr>calls := calls c @ row_calls w h tx y\<rparr>"
  let ?c2 = "c0\<lparr>calls := calls c0 @ row_calls w h tx y\<rparr>"
  let ?e = "c0\<lparr>calls := []\<rparr>"
  have e: "calls ?e = []" by simp
  have "calls (fst (transaction_rows w h (tx # txs) (c, y))) =
          calls ?c1 @ calls (fst (transaction_rows w h txs (?e, ?y)))"
    by (simp only: rows_step Cons.IH [OF e, of ?c1 ?y])
  moreover have "calls (fst (transaction_rows w h (tx # txs) (c0, y))) =
          calls ?c2 @ calls (fst (transaction_rows w h txs (?e, ?y)))"
    by (simp only: rows_step Cons.IH [OF e, of ?c2 ?y])
  ultimately show ?case using Cons.prems by simp
qed

lemma rows_calls:
  "calls (fst (transaction_rows w h txs (c, y))) = calls c @ rows_emitted w h txs y"
  unfolding rows_emitted_def by (rule rows_calls_from) (simp add: Canvas_def)

lemma rows_emitted_Nil [simp]: "rows_emitted w h [] y = []"
  by (simp add: rows_emitted_def Canvas_def)

lemma rows_emitted_Cons [simp]:
  "rows_emitted w h (tx # txs) y =
     row_calls w h tx y @ rows_emitted w h txs (py_sub (row_cursor h y) (PInt 15))"
proof -
  let ?c = "Canvas [] (w, h)"
  have "rows_emitted w h (tx # txs) y =
          calls (fst (transaction_rows w h txs
            (?c\<lparr>calls := calls ?c @ row_calls w h tx y\<rparr>, py_sub (row_cursor h y) (PInt 15))))"
    by (simp only: rows_emitted_def rows_step)
  also have "\<dots> = row_calls w h tx y @ rows_emitted w h txs (py_sub (row_cursor h y) (PInt 15))"
    by (simp add: rows_calls Canvas_def)
  finally show ?thesis .
qed

lemma rows_cursor_from:
  "snd (transaction_rows w h txs (c, y)) = snd (transaction_rows w' h txs (c', y))"
proof (induction txs arbitrary: c c' y)
  case Nil
  then show ?case by simp
next
  case (Cons tx txs)
  show ?case by (simp only: rows_step) (rule Cons.IH)
qed

lemma rows_cursor:
  "snd (transaction_rows w h txs (c, y)) = after_rows h txs y"
  unfolding after_rows_def by (rule rows_cursor_from)

lemma rows_filename [simp]: "filename (fst (transaction_rows w h txs (c, y))) = filename c"
proof (induction txs arbitrary: c y)
  case Nil
  then show ?case by simp
next
  case (Cons tx txs)
  show ?case by (simp only: rows_step Cons.IH) simp
qed

lemma rows_pagesize [simp]: "pagesize (fst (transaction_rows w h txs (c, y))) = pagesize c"
proof (induction txs arbitrary: c y)
  case Nil
  then show ?case by simp
next
  case (Cons tx txs)
  show ?case by (simp only: rows_step Cons.IH) simp
qed

lemma rows_emitted_texts:
  "texts (rows_emitted w h txs y) = concat (map row_texts txs)"
proof (induction txs arbitrary: y)
  case Nil
  then show ?case by simp
next
  case (Cons tx txs)
  obtain d desc a where tx: "tx = (d, desc, a)" by (cases tx)
  show ?case using tx by (simp add: row_calls_def row_texts_def Cons.IH)
qed

lemma rows_no_save: "Save \<notin> set (rows_emitted w h txs y)"
proof (induction txs arbitrary: y)
  case Nil
  then show ?case by simp
next
  case (Cons tx txs)
  obtain d desc a where tx: "tx = (d, desc, a)" by (cases tx)
  show ?case using tx by (simp add: row_calls_def Cons.IH)
qed

lemma row_cursor_ok:
  "\<not> py_lt (py_sub h (PInt 60)) (PInt 100) \<Longrightarrow> \<not> py_lt (row_cursor h y) (PInt 100)"
  by (simp add: row_cursor_def)

lemma rows_above_margin:
  "\<not> py_lt (py_sub h (PInt 60)) (PInt 100) \<Longrightarrow> list_all above_margin (rows_emitted w h txs y)"
proof (induction txs arbitrary: y)
  case Nil
  then show ?case by simp
next
  case (Cons tx txs)
  obtain d desc a where tx: "tx = (d, desc, a)" by (cases tx)
  show ?case using Cons tx by (simp add: row_calls_def row_cursor_ok)
qed

lemma create_stdout [simp]:
  "snd (create_zkb_statement A4 now name) = summary name transactions"
  by (simp add: create_zkb_statement_def Let_def split: prod.splits)

section \<open>The claims\<close>

text \<open>
  C3. The claim: when the drawing library is absent the program prints a remediation
  message and ends with exit code 1, the check running once before any drawing; when the
  library is present the exit code is 0. On the code: with the library absent the import of
  line 12 raises at module level, before the guarded check of lines 156 to 162 is reached.
  Nothing is printed and no document is written; the run ends by the uncaught
  \<open>ImportError\<close>, with exit status 1. The remediation message is standard output of no
  run, with the library or without it. With the library present the run prints the
  summary and exits with 0.
\<close>

theorem missing_dependency_run:
  "script False A4 now = \<lparr>stdout = [], status = Uncaught ImportError, document = None\<rparr>
   \<and> exit_code (status (script False A4 now)) = 1
   \<and> stdout (script installed A4 now) \<noteq> install_hint
   \<and> exit_code (status (script True A4 now)) = 0
   \<and> stdout (script True A4 now) = summary default_filename transactions"
  by (cases installed)
     (simp_all add: script_def import_reportlab_def install_hint_def summary_def
        case_prod_beta Let_def)

text \<open>
  C6. The description cell of every row is the first 45 characters of the description:
  the texts drawn in the description column are the descriptions cut at 45, in order; a
  description longer than 45 characters is drawn as exactly 45 characters, a prefix of it
  with nothing appended; a description of at most 45 characters is drawn unchanged.
\<close>

theorem description_truncated:
  "column (PInt 100) (rows_emitted w h txs y) =
     map (\<lambda>(date, description, amount). take 45 description) txs
   \<and> (length description > 45 \<longrightarrow>
        length (take 45 description) = 45
        \<and> take 45 description @ drop 45 description = description)
   \<and> (length description \<le> 45 \<longrightarrow> take 45 description = description)"
proof -
  have "column (PInt 100) (rows_emitted w h txs y) =
          map (\<lambda>(date, description, amount). take 45 description) txs"
  proof (induction txs arbitrary: y)
    case Nil
    then show ?case by simp
  next
    case (Cons tx txs)
    obtain d desc a where tx: "tx = (d, desc, a)" by (cases tx)
    show ?case using tx by (simp add: row_calls_def Cons.IH)
  qed
  then show ?thesis by simp
qed

theorem description_truncated_witness:
  "column (PInt 100)
     (rows_emitted (PInt 595) (PInt 842)
        [(ascii ''01.02.2026'',
          ascii ''A description that is clearly longer than forty-five characters'', PInt 5)]
        (PInt 597))
     = [ascii ''A description that is clearly longer than for'']
   \<and> length (ascii ''A description that is clearly longer than forty-five characters'') > 45
   \<and> length
        (take 45 (ascii ''A description that is clearly longer than forty-five characters''))
       = 45
   \<and> length (ascii ''Spotify Premium'') \<le> 45
   \<and> take 45 (ascii ''Spotify Premium'') = ascii ''Spotify Premium''"
  using description_truncated [of "PInt 595" "PInt 842"
      "[(ascii ''01.02.2026'',
         ascii ''A description that is clearly longer than forty-five characters'', PInt 5)]"
      "PInt 597" "ascii ''A description that is clearly longer than forty-five characters''"]
    description_truncated [of "PInt 595" "PInt 842" "[]" "PInt 597" "ascii ''Spotify Premium''"]
  by (simp add: ascii_def)

lemma pow2_pos [simp]: "0 < pow2 k"
  by (simp add: pow2_def)

lemma pow2_nonneg [simp]: "0 \<le> pow2 k"
  by (simp add: pow2_def)

lemma pow2_not_neg [simp]: "\<not> pow2 k < 0"
  by (simp add: pow2_def not_less)







lemma fneg_nearest [simp]: "fneg (nearest_float s n d) = s"
  by (simp add: nearest_float_def Let_def)


lemma py_lt_zero_int [simp]: "py_lt (PInt n) (PInt 0) = (n < 0)"
  by (auto simp: py_lt_def fless_def sval_def Let_def pow2_def)

lemma py_lt_zero_float [simp]: "py_lt (PFloat x) (PInt 0) = (sval x < 0)"
  by (auto simp: py_lt_def fless_def sval_def Let_def mult_less_0_iff zero_less_mult_iff)







lemma header_effect:
  "statement_header w h now c = (c\<lparr>calls := calls c @ header_emitted w h now\<rparr>, first_row h)"
  by (simp add: statement_header_def header_emitted_def first_row_def Let_def Canvas_def
      setFont_def drawString_def line_def)

lemma footer_effect:
  "statement_footer w txs (c, y) = c\<lparr>calls := calls c @ footer_emitted w txs y\<rparr>"
  by (simp add: statement_footer_def footer_emitted_def Let_def Canvas_def
      setFont_def drawString_def drawRightString_def line_def save_def)

lemma create_calls:
  "calls (fst (create_zkb_statement (w, h) now name)) =
     header_emitted w h now @ rows_emitted w h transactions (first_row h)
     @ footer_emitted w transactions (after_rows h transactions (first_row h))"
proof -
  let ?c0 = "Canvas name (w, h)"
  let ?c1 = "?c0\<lparr>calls := calls ?c0 @ header_emitted w h now\<rparr>"
  let ?r = "transaction_rows w h transactions (?c1, first_row h)"
  have r: "?r = (fst ?r, after_rows h transactions (first_row h))"
    by (simp add: prod_eq_iff rows_cursor)
  have "fst (create_zkb_statement (w, h) now name) = statement_footer w transactions ?r"
    by (simp add: create_zkb_statement_def Let_def header_effect)
  also have "\<dots> = statement_footer w transactions (fst ?r, after_rows h transactions (first_row h))"
    using r by simp
  finally show ?thesis
    by (simp add: footer_effect rows_calls Canvas_def)
qed

lemma create_filename [simp]:
  "filename (fst (create_zkb_statement A4 now name)) = name"
  by (cases A4)
     (simp add: create_zkb_statement_def Let_def header_effect Canvas_def
        statement_footer_def case_prod_beta)

lemma totals_values:
  "total_income transactions = PFloat (Float False 8246337208320000 (- 40))"
  "total_expenses transactions = PFloat (Float False 5281614055184793 (- 40))"
  "final_balance transactions = PFloat (Float False 5929446306270414 (- 41))"
  "PFloat (float_lit 750000 2) = PFloat (Float False 8246337208320000 (- 40))"
  by code_simp+

lemma summary_lines:
  "digits (int (length transactions)) = ascii ''32''"
  "replace 44 39 (ascii ''  Total Income: CHF '' @ py_format_2f (total_income transactions))
     = ascii ''  Total Income: CHF 7'500.00''"
  "replace 44 39 (ascii ''  Total Expenses: CHF '' @ py_format_2f (total_expenses transactions))
     = ascii ''  Total Expenses: CHF 4'803.60''"
  "replace 44 39 (ascii ''  Final Balance: CHF '' @ py_format_2f (final_balance transactions))
     = ascii ''  Final Balance: CHF 2'696.40''"
  "balance_str transactions = ascii ''CHF 2'696.40''"
  "length transactions = 32"
  unfolding totals_values balance_str_def by code_simp+

lemma income_comprehension:
  "[py_abs amt. (date, desc, amt) \<leftarrow> txs, py_lt amt (PInt 0)] =
     map py_abs (filter (\<lambda>a. py_lt a (PInt 0)) (map (\<lambda>(date, desc, amt). amt) txs))"
  by (induction txs) auto

lemma expenses_comprehension:
  "[amt. (date, desc, amt) \<leftarrow> txs, py_gt amt (PInt 0)] =
     filter (\<lambda>a. py_gt a (PInt 0)) (map (\<lambda>(date, desc, amt). amt) txs)"
  by (induction txs) auto

lemma exact_values:
  "exact_value (PFloat (Float False 8246337208320000 (- 40))) = 7500"
  "exact_value (PFloat (Float False 5281614055184793 (- 40))) = 5281614055184793 / 1099511627776"
  "exact_value (PFloat (Float False 5929446306270414 (- 41))) = 2964723153135207 / 1099511627776"
  by (simp_all add: float_value_def sval_def pow2_def)

lemma footer_balance:
  "DrawRightString (py_sub w (PInt 40)) (py_sub y (PInt 25)) (balance_str txs)
     \<in> set (footer_emitted w txs y)"
  by (simp add: footer_emitted_def statement_footer_def Let_def Canvas_def)

lemma totals_312:
  "total_income_312 transactions = PFloat (Float False 8246337208320000 (- 40))"
  "total_expenses_312 transactions = PFloat (Float False 5281614055184794 (- 40))"
  "final_balance_312 transactions = PFloat (Float False 5929446306270412 (- 41))"
  by code_simp+

lemma texts_312:
  "balance_str_312 transactions = ascii ''CHF 2'696.40''"
  "replace 44 39 (py_format_2f (total_expenses_312 transactions)) = ascii ''4'803.60''"
  "replace 44 39 (py_format_2f (total_expenses transactions)) = ascii ''4'803.60''"
  unfolding balance_str_312_def totals_312 totals_values by code_simp+

lemma exact_sum:
  "sum_list (map exact_value (expense_items transactions)) =
     676046599063653583 / 140737488355328"
  by code_simp

lemma items:
  "income_items transactions = [PFloat (float_lit 750000 2)]"
  "length (expense_items transactions) = 31"
  by code_simp+

lemma exact_values_312:
  "exact_value (PFloat (Float False 5281614055184794 (- 40))) = 2640807027592397 / 549755813888"
  "exact_value (PFloat (Float False 5929446306270412 (- 41))) = 1482361576567603 / 549755813888"
  by (simp_all add: float_value_def sval_def pow2_def)

text \<open>
  C1. The claim: for the 32 records the income total is the sum of the absolute values
  of the negative amounts and is 7500.00, the expenses total is the sum of the positive
  amounts, and the balance is their difference exactly, rounded only for display. The
  amounts are binary floats and \<open>sum\<close> adds them in binary64, so the expenses total is
  neither the exact sum of the 31 positive amounts nor the decimal 4803.60, with the
  \<open>sum\<close> of either interpreter generation.
\<close>

theorem expenses_not_exact_sum:
  "exact_value (total_expenses transactions) \<noteq>
     sum_list (map exact_value (expense_items transactions))
   \<and> exact_value (total_expenses transactions) \<noteq> 480360 / 100
   \<and> exact_value (total_expenses_312 transactions) \<noteq>
       sum_list (map exact_value (expense_items transactions))
   \<and> exact_value (total_expenses_312 transactions) \<noteq> 480360 / 100"
  unfolding totals_values totals_312 exact_values exact_values_312 exact_sum by simp

text \<open>
  C1, as the code has it. One record is negative, so the income total is exactly 7500.
  The expenses total is the binary64 sum of the 31 positive amounts: the double
  4803.599999999999 with the \<open>sum\<close> of CPython up to 3.11 and the double 4803.6 from 3.12
  on, each less than \<open>10^-12\<close> away from the exact sum of the records and from 4803.60.
  The subtraction that gives the balance does not round: the balance is the income total
  minus the expenses total exactly. It is not rounded to hundredths before it is
  formatted, and on both interpreters the texts are \<open>CHF 2'696.40\<close> for the balance and
  \<open>4'803.60\<close> for the expenses.
\<close>

theorem balance_totals_binary64:
  "total_income txs = py_sum (income_items txs)
   \<and> total_expenses txs = py_sum (expense_items txs)
   \<and> income_items transactions = [PFloat (float_lit 750000 2)]
   \<and> length (expense_items transactions) = 31
   \<and> exact_value (total_income transactions) = 7500
   \<and> exact_value (total_income_312 transactions) = 7500
   \<and> exact_value (total_expenses transactions) = 5281614055184793 / 1099511627776
   \<and> exact_value (total_expenses_312 transactions) = 5281614055184794 / 1099511627776
   \<and> \<bar>exact_value (total_expenses transactions)
        - sum_list (map exact_value (expense_items transactions))\<bar> < 1 / 10 ^ 12
   \<and> \<bar>exact_value (total_expenses_312 transactions)
        - sum_list (map exact_value (expense_items transactions))\<bar> < 1 / 10 ^ 12
   \<and> \<bar>exact_value (total_expenses transactions) - 480360 / 100\<bar> < 1 / 10 ^ 12
   \<and> \<bar>exact_value (total_expenses_312 transactions) - 480360 / 100\<bar> < 1 / 10 ^ 12
   \<and> exact_value (final_balance transactions) =
       exact_value (total_income transactions) - exact_value (total_expenses transactions)
   \<and> exact_value (final_balance_312 transactions) =
       exact_value (total_income_312 transactions)
       - exact_value (total_expenses_312 transactions)
   \<and> exact_value (final_balance transactions) \<noteq> 269640 / 100
   \<and> exact_value (final_balance_312 transactions) \<noteq> 269640 / 100
   \<and> balance_str transactions =
       replace 44 39 (ascii ''CHF '' @ py_format_2f (final_balance transactions))
   \<and> balance_str transactions = ascii ''CHF 2'696.40''
   \<and> balance_str_312 transactions = ascii ''CHF 2'696.40''
   \<and> replace 44 39 (py_format_2f (total_expenses transactions)) = ascii ''4'803.60''
   \<and> replace 44 39 (py_format_2f (total_expenses_312 transactions)) = ascii ''4'803.60''"
proof (intro conjI)
  show "total_income txs = py_sum (income_items txs)"
    by (simp only: total_income_def income_items_def)
  show "total_expenses txs = py_sum (expense_items txs)"
    by (simp only: total_expenses_def expense_items_def)
  show "income_items transactions = [PFloat (float_lit 750000 2)]" by (rule items)
  show "length (expense_items transactions) = 31" by (rule items)
  show "exact_value (total_income transactions) = 7500"
    by (simp only: totals_values exact_values)
  show "exact_value (total_income_312 transactions) = 7500"
    by (simp only: totals_312 exact_values)
  show "exact_value (total_expenses transactions) = 5281614055184793 / 1099511627776"
    by (simp only: totals_values exact_values)
  show "exact_value (total_expenses_312 transactions) = 5281614055184794 / 1099511627776"
    unfolding totals_312 exact_values_312 by simp
  show "\<bar>exact_value (total_expenses transactions)
        - sum_list (map exact_value (expense_items transactions))\<bar> < 1 / 10 ^ 12"
    unfolding totals_values exact_values exact_sum by simp
  show "\<bar>exact_value (total_expenses_312 transactions)
        - sum_list (map exact_value (expense_items transactions))\<bar> < 1 / 10 ^ 12"
    unfolding totals_312 exact_values_312 exact_sum by simp
  show "\<bar>exact_value (total_expenses transactions) - 480360 / 100\<bar> < 1 / 10 ^ 12"
    unfolding totals_values exact_values by simp
  show "\<bar>exact_value (total_expenses_312 transactions) - 480360 / 100\<bar> < 1 / 10 ^ 12"
    unfolding totals_312 exact_values_312 by simp
  show "exact_value (final_balance transactions) =
       exact_value (total_income transactions) - exact_value (total_expenses transactions)"
    unfolding totals_values exact_values by simp
  show "exact_value (final_balance_312 transactions) =
       exact_value (total_income_312 transactions)
       - exact_value (total_expenses_312 transactions)"
    unfolding totals_312 exact_values exact_values_312 by simp
  show "exact_value (final_balance transactions) \<noteq> 269640 / 100"
    unfolding totals_values exact_values by simp
  show "exact_value (final_balance_312 transactions) \<noteq> 269640 / 100"
    unfolding totals_312 exact_values_312 by simp
  show "balance_str transactions =
       replace 44 39 (ascii ''CHF '' @ py_format_2f (final_balance transactions))"
    by (rule balance_str_def)
  show "balance_str transactions = ascii ''CHF 2'696.40''" by (rule summary_lines)
  show "balance_str_312 transactions = ascii ''CHF 2'696.40''" by (rule texts_312)
  show "replace 44 39 (py_format_2f (total_expenses transactions)) = ascii ''4'803.60''"
    by (rule texts_312)
  show "replace 44 39 (py_format_2f (total_expenses_312 transactions)) = ascii ''4'803.60''"
    by (rule texts_312)
qed

text \<open>
  Every text of the document and of the summary that depends on a total is the same
  with the \<open>sum\<close> of either interpreter generation, so the calls and the printed lines
  of \<open>create_zkb_statement\<close> stand for both.
\<close>

lemma texts_of_both_sums:
  "balance_str_312 transactions = balance_str transactions"
  "py_format_2f (total_income_312 transactions) = py_format_2f (total_income transactions)"
  "py_format_2f (total_expenses_312 transactions) = py_format_2f (total_expenses transactions)"
  "py_format_2f (final_balance_312 transactions) = py_format_2f (final_balance transactions)"
  unfolding balance_str_312_def balance_str_def totals_312 totals_values by code_simp+

text \<open>
  C10. The summary printed to standard output reports the values of the document: the
  transaction count is the length of the record list, 32; the income, expenses and balance
  lines format the same three numbers that the balance footer is computed from, with two
  decimals, the apostrophe as grouping character and the prefix \<open>CHF\<close>; and the balance
  line ends with the very text that the footer draws right-aligned.
\<close>

theorem summary_matches_document:
  "snd (create_zkb_statement (w, h) now name) =
     [[9989] @ ascii '' Created: '' @ name,
      [10] @ ascii ''Statement Summary:'',
      ascii ''  Period: January 2026'',
      ascii ''  Transactions: 32'',
      ascii ''  Total Income: CHF 7'500.00'',
      ascii ''  Total Expenses: CHF 4'803.60'',
      ascii ''  Final Balance: CHF 2'696.40'',
      [10] @ ascii ''Use this PDF to test the Z'' @ [252] @ ascii ''riBudget app!'']
   \<and> length transactions = 32
   \<and> snd (create_zkb_statement (w, h) now name) ! 4 =
       replace 44 39 (ascii ''  Total Income: CHF '' @ py_format_2f (total_income transactions))
   \<and> snd (create_zkb_statement (w, h) now name) ! 5 =
       replace 44 39
         (ascii ''  Total Expenses: CHF '' @ py_format_2f (total_expenses transactions))
   \<and> snd (create_zkb_statement (w, h) now name) ! 6 =
       ascii ''  Final Balance: '' @ balance_str transactions
   \<and> DrawRightString (py_sub w (PInt 40))
        (py_sub (after_rows h transactions (first_row h)) (PInt 25)) (balance_str transactions)
       \<in> set (calls (fst (create_zkb_statement (w, h) now name)))"
proof (intro conjI)
  show "snd (create_zkb_statement (w, h) now name) =
     [[9989] @ ascii '' Created: '' @ name,
      [10] @ ascii ''Statement Summary:'',
      ascii ''  Period: January 2026'',
      ascii ''  Transactions: 32'',
      ascii ''  Total Income: CHF 7'500.00'',
      ascii ''  Total Expenses: CHF 4'803.60'',
      ascii ''  Final Balance: CHF 2'696.40'',
      [10] @ ascii ''Use this PDF to test the Z'' @ [252] @ ascii ''riBudget app!'']"
    by (simp add: summary_def summary_lines(1-4)) (simp add: ascii_def)
  show "length transactions = 32" by (rule summary_lines)
  show "snd (create_zkb_statement (w, h) now name) ! 4 =
       replace 44 39 (ascii ''  Total Income: CHF '' @ py_format_2f (total_income transactions))"
    by (simp add: summary_def)
  show "snd (create_zkb_statement (w, h) now name) ! 5 =
       replace 44 39
         (ascii ''  Total Expenses: CHF '' @ py_format_2f (total_expenses transactions))"
    by (simp add: summary_def)
  show "snd (create_zkb_statement (w, h) now name) ! 6 =
       ascii ''  Final Balance: '' @ balance_str transactions"
    by (simp add: summary_def summary_lines(4,5)) (simp add: ascii_def)
  show "DrawRightString (py_sub w (PInt 40))
        (py_sub (after_rows h transactions (first_row h)) (PInt 25)) (balance_str transactions)
       \<in> set (calls (fst (create_zkb_statement (w, h) now name)))"
    using footer_balance by (simp add: create_calls)
qed

lemma rows_refine_step:
  "transaction_rows w h (tx # txs) cy =
     transaction_rows w h txs (spec_advance (spec_draw_row w tx (spec_page_break h cy)))"
  by (cases cy, cases tx)
     (simp add: spec_advance_def spec_draw_row_def spec_page_break_def Let_def)

lemma rows_refine: "transaction_rows w h txs cy = spec_rows w h txs cy"
  unfolding spec_rows_def
proof (induction txs arbitrary: cy)
  case Nil
  show ?case by (cases cy) simp
next
  case (Cons tx txs)
  show ?case by (simp only: rows_refine_step Cons.IH foldl_Cons)
qed

lemma rows_dates: "column (PInt 40) (rows_emitted w h txs y) = map fst txs"
proof (induction txs arbitrary: y)
  case Nil
  then show ?case by simp
next
  case (Cons tx txs)
  obtain d desc a where tx: "tx = (d, desc, a)" by (cases tx)
  show ?case using tx by (simp add: row_calls_def Cons.IH)
qed

lemma header_emitted_eq:
  "header_emitted w h now =
     [SetFont (ascii ''Helvetica-Bold'') 18,
      DrawString (PInt 40) (py_sub h (PInt 60)) (ascii ''Z'' @ [252] @ ascii ''rcher Kantonalbank''),
      SetFont (ascii ''Helvetica'') 10,
      DrawString (PInt 40) (py_sub h (PInt 80)) (ascii ''Bahnhofstrasse 9''),
      DrawString (PInt 40) (py_sub h (PInt 95)) (ascii ''8001 Z'' @ [252] @ ascii ''rich''),
      SetFont (ascii ''Helvetica-Bold'') 12,
      DrawString (PInt 40) (py_sub h (PInt 130)) (ascii ''Kontoauszug / Account Statement''),
      SetFont (ascii ''Helvetica'') 10,
      DrawString (PInt 40) (py_sub h (PInt 150))
        (ascii ''Konto / Account: CH93 0070 0110 0012 3456 7''),
      DrawString (PInt 40) (py_sub h (PInt 165))
        (ascii ''Periode / Period: 01.01.2026 - 31.01.2026''),
      DrawString (PInt 40) (py_sub h (PInt 180)) (ascii ''Erstellt / Created: '' @ now),
      DrawString (py_sub w (PInt 200)) (py_sub h (PInt 150)) (ascii ''Max Mustermann''),
      DrawString (py_sub w (PInt 200)) (py_sub h (PInt 165)) (ascii ''Musterstrasse 123''),
      DrawString (py_sub w (PInt 200)) (py_sub h (PInt 180))
        (ascii ''8000 Z'' @ [252] @ ascii ''rich''),
      SetFont (ascii ''Helvetica-Bold'') 9,
      DrawString (PInt 40) (py_sub h (PInt 220)) (ascii ''Datum''),
      DrawString (PInt 100) (py_sub h (PInt 220)) (ascii ''Buchungstext''),
      DrawString (py_sub w (PInt 120)) (py_sub h (PInt 220)) (ascii ''Betrag CHF''),
      Line (PInt 40) (py_sub (py_sub h (PInt 220)) (PInt 5)) (py_sub w (PInt 40))
        (py_sub (py_sub h (PInt 220)) (PInt 5)),
      SetFont (ascii ''Helvetica'') 9]"
  by (simp add: header_emitted_def statement_header_def Let_def Canvas_def)

lemma footer_emitted_eq:
  "footer_emitted w txs y =
     [Line (PInt 40) (py_sub y (PInt 10)) (py_sub w (PInt 40)) (py_sub y (PInt 10)),
      SetFont (ascii ''Helvetica-Bold'') 10,
      DrawString (PInt 40) (py_sub y (PInt 25)) (ascii ''Saldo / Balance:''),
      DrawRightString (py_sub w (PInt 40)) (py_sub y (PInt 25)) (balance_str txs),
      SetFont (ascii ''Helvetica'') 7,
      DrawString (PInt 40) (py_sub (py_sub y (PInt 25)) (PInt 40))
        (ascii ''Z'' @ [252] @ ascii ''rcher Kantonalbank - Alle Angaben ohne Gew''
         @ [228] @ ascii ''hr''),
      DrawString (PInt 40) (py_sub (py_sub (py_sub y (PInt 25)) (PInt 40)) (PInt 10))
        (ascii ''Bitte pr'' @ [252]
         @ ascii ''fen Sie die Angaben und melden Sie Unstimmigkeiten innert 30 Tagen.''),
      Save]"
  by (simp add: footer_emitted_def statement_footer_def Let_def Canvas_def)

lemma rows_no_break:
  "list_all (\<lambda>y. \<not> py_lt y (PInt 100)) (cursors h txs y) \<Longrightarrow>
     ShowPage \<notin> set (rows_emitted w h txs y)"
proof (induction txs arbitrary: y)
  case Nil
  then show ?case by simp
next
  case (Cons tx txs)
  obtain d desc a where tx: "tx = (d, desc, a)" by (cases tx)
  show ?case using Cons tx by (simp add: row_calls_def)
qed

lemma cursors_points:
  "cursors (PInt 842) transactions (PInt 597) = map (\<lambda>i. PInt (597 - 15 * int i)) [0..<32]"
  "list_all (\<lambda>y. \<not> py_lt y (PInt 100)) (cursors (PInt 842) transactions (PInt 597))"
  "first_row (PInt 842) = PInt 597"
  "py_sub (PInt 842) (PInt 220) = PInt 622"
  "after_rows (PInt 842) transactions (PInt 597) = PInt 117"
  by code_simp+

lemma cursors_reportlab:
  "list_all (\<lambda>y. \<not> py_lt y (PInt 100))
     (cursors (snd A4_reportlab) transactions (first_row (snd A4_reportlab)))"
  by code_simp

lemma header_no_break: "ShowPage \<notin> set (header_emitted w h now)"
  by (simp add: header_emitted_eq)

lemma footer_no_break: "ShowPage \<notin> set (footer_emitted w txs y)"
  by (simp add: footer_emitted_eq)

text \<open>
  C5. The record loop takes the records in the order of the list. For each record it
  first tests whether the cursor is below 100; if so it ends the page, sets the cursor to
  \<open>height - 60\<close> and sets the font again, and draws nothing else for the new page; then
  it draws the three cells of the row at the cursor and moves the cursor down by 15. The
  loop of the source is the iteration of these steps as the specification words them, and
  the dates and the texts it draws are those of the records, in their order.
\<close>

theorem record_loop_steps:
  "transaction_rows w h txs cy = spec_rows w h txs cy
   \<and> calls (fst (spec_page_break h (c, y))) =
       calls c @ (if py_lt y (PInt 100) then [ShowPage, SetFont (ascii ''Helvetica'') 9] else [])
   \<and> snd (spec_page_break h (c, y)) = (if py_lt y (PInt 100) then py_sub h (PInt 60) else y)
   \<and> calls (fst (spec_draw_row w (date, description, amount) (c, y))) =
       calls c @ [DrawString (PInt 40) y date, DrawString (PInt 100) y (take 45 description),
                  DrawRightString (py_sub w (PInt 40)) y (amount_str amount)]
   \<and> spec_advance (c, y) = (c, py_sub y (PInt 15))
   \<and> texts (rows_emitted w h txs y) = concat (map row_texts txs)
   \<and> column (PInt 40) (rows_emitted w h txs y) = map fst txs"
  by (simp add: rows_refine rows_emitted_texts rows_dates spec_page_break_def
      spec_draw_row_def spec_advance_def)

text \<open>
  C9. For the 32 records on the A4 page the page break of the loop is never taken. With
  the height 842 the table header is at 622 and the first row at 597; the cursor tested
  at the 32 iterations is 597, 582, ... down to 132, never below 100, and the calls of the
  run contain no \<open>showPage\<close>. The same holds with the height that the drawing library
  gives, 841.8897637795277.
\<close>

theorem no_page_break_in_run:
  "py_sub (PInt 842) (PInt 220) = PInt 622
   \<and> first_row (PInt 842) = PInt 597
   \<and> cursors (PInt 842) transactions (first_row (PInt 842)) =
       map (\<lambda>i. PInt (597 - 15 * int i)) [0..<32]
   \<and> list_all (\<lambda>y. \<not> py_lt y (PInt 100))
        (cursors (PInt 842) transactions (first_row (PInt 842)))
   \<and> ShowPage \<notin> set (calls (fst (create_zkb_statement A4_points now name)))
   \<and> list_all (\<lambda>y. \<not> py_lt y (PInt 100))
        (cursors (snd A4_reportlab) transactions (first_row (snd A4_reportlab)))
   \<and> ShowPage \<notin> set (calls (fst (create_zkb_statement A4_reportlab now name)))"
proof (intro conjI)
  have a: "list_all (\<lambda>y. \<not> py_lt y (PInt 100))
        (cursors (PInt 842) transactions (first_row (PInt 842)))"
    unfolding cursors_points(3) by (rule cursors_points(2))
  obtain w h where r: "A4_reportlab = (w, h)" by (cases A4_reportlab)
  show "py_sub (PInt 842) (PInt 220) = PInt 622" by (rule cursors_points)
  show "first_row (PInt 842) = PInt 597" by (rule cursors_points)
  show "cursors (PInt 842) transactions (first_row (PInt 842)) =
       map (\<lambda>i. PInt (597 - 15 * int i)) [0..<32]"
    unfolding cursors_points(3) by (rule cursors_points(1))
  show "list_all (\<lambda>y. \<not> py_lt y (PInt 100))
        (cursors (PInt 842) transactions (first_row (PInt 842)))"
    by (rule a)
  show "ShowPage \<notin> set (calls (fst (create_zkb_statement A4_points now name)))"
    using rows_no_break [OF a, of "PInt 595"]
    by (simp add: A4_points_def create_calls header_no_break footer_no_break)
  show "list_all (\<lambda>y. \<not> py_lt y (PInt 100))
        (cursors (snd A4_reportlab) transactions (first_row (snd A4_reportlab)))"
    by (rule cursors_reportlab)
  show "ShowPage \<notin> set (calls (fst (create_zkb_statement A4_reportlab now name)))"
    using rows_no_break [of h transactions "first_row h" w] cursors_reportlab
    by (simp add: r create_calls header_no_break footer_no_break)
qed

lemma rows_break_reset:
  assumes "\<not> py_lt (py_sub h (PInt 60)) (PInt 100)" "py_lt y (PInt 100)"
  shows "rows_emitted w h (tx # txs) y =
           [ShowPage, SetFont (ascii ''Helvetica'') 9]
           @ rows_emitted w h (tx # txs) (py_sub h (PInt 60))"
  using assms by (cases tx) (simp add: row_calls_def row_cursor_def)

lemma footer_points:
  "footer_emitted (PInt 595) transactions (PInt 117) =
     [Line (PInt 40) (PInt 107) (PInt 555) (PInt 107),
      SetFont (ascii ''Helvetica-Bold'') 10,
      DrawString (PInt 40) (PInt 92) (ascii ''Saldo / Balance:''),
      DrawRightString (PInt 555) (PInt 92) (ascii ''CHF 2'696.40''),
      SetFont (ascii ''Helvetica'') 7,
      DrawString (PInt 40) (PInt 52)
        (ascii ''Z'' @ [252] @ ascii ''rcher Kantonalbank - Alle Angaben ohne Gew''
         @ [228] @ ascii ''hr''),
      DrawString (PInt 40) (PInt 42)
        (ascii ''Bitte pr'' @ [252]
         @ ascii ''fen Sie die Angaben und melden Sie Unstimmigkeiten innert 30 Tagen.''),
      Save]"
  by (simp add: footer_emitted_eq summary_lines(5))

lemma margin_facts:
  "py_lt (PInt 92) (PInt 100)"
  "\<not> py_lt (py_sub (PInt 842) (PInt 60)) (PInt 100)"
  "py_lt (PInt 90) (PInt 100)"
  "\<not> py_lt (PInt 42) (PInt 0)"
  by code_simp+

lemma header_points_above: "list_all above_margin (header_emitted (PInt 595) (PInt 842) now)"
  unfolding header_emitted_eq by (simp add: py_lt_def fless_def sval_def pow2_def)

lemma header_no_save: "filter (\<lambda>k. k = Save) (header_emitted w h now) = []"
  by (simp add: header_emitted_eq)

lemma rows_filter_save: "filter (\<lambda>k. k = Save) (rows_emitted w h txs y) = []"
  using rows_no_save [of w h txs y] by (auto simp: filter_empty_conv)

lemma footer_filter_save: "filter (\<lambda>k. k = Save) (footer_emitted w txs y) = [Save]"
  by (simp add: footer_emitted_eq)

lemma footer_texts:
  "texts (footer_emitted w txs y) =
     [ascii ''Saldo / Balance:'', balance_str txs,
      ascii ''Z'' @ [252] @ ascii ''rcher Kantonalbank - Alle Angaben ohne Gew''
        @ [228] @ ascii ''hr'',
      ascii ''Bitte pr'' @ [252]
        @ ascii ''fen Sie die Angaben und melden Sie Unstimmigkeiten innert 30 Tagen.'']"
  by (simp add: footer_emitted_eq)

lemma header_count: "count_list (texts (header_emitted w h now)) (ascii ''Saldo / Balance:'') = 0"
  by (simp add: header_emitted_eq ascii_def)

lemma rows_count:
  "count_list (concat (map row_texts transactions)) (ascii ''Saldo / Balance:'') = 0"
  "47 \<notin> set default_filename"
  "default_filename = ascii ''ZKB_Sample_Statement_January_2026.pdf''"
  "length (map row_texts transactions) = 32"
  by code_simp+

lemma footer_count:
  "count_list (texts (footer_emitted w transactions y)) (ascii ''Saldo / Balance:'') = 1"
  by (simp add: footer_texts summary_lines(5)) (simp add: ascii_def)

lemma create_pagesize [simp]:
  "pagesize (fst (create_zkb_statement A4 now name)) = A4"
  by (cases A4)
     (simp add: create_zkb_statement_def Let_def header_effect Canvas_def
        statement_footer_def case_prod_beta)

lemma header_update:
  "header_emitted w h now1 =
     (header_emitted w h now2)
       [10 := DrawString (PInt 40) (py_sub h (PInt 180)) (ascii ''Erstellt / Created: '' @ now1)]"
  "header_emitted w h now2 ! 10 =
     DrawString (PInt 40) (py_sub h (PInt 180)) (ascii ''Erstellt / Created: '' @ now2)"
  "length (header_emitted w h now) = 20"
  by (simp_all add: header_emitted_eq numeral_nat)

text \<open>
  C2. The claim: no text or line of the run is drawn below 100 units from the page
  bottom, the closing separator, the balance line and the two disclaimer lines included.
  The run on the A4 page refutes it: the balance label is drawn at \<open>y = 92\<close>.
\<close>

theorem margin_counterexample:
  "DrawString (PInt 40) (PInt 92) (ascii ''Saldo / Balance:'')
     \<in> set (calls (fst (create_zkb_statement A4_points (ascii ''04.11.2026'') default_filename)))
   \<and> py_lt (PInt 92) (PInt 100)
   \<and> \<not> list_all above_margin
        (calls (fst (create_zkb_statement A4_points (ascii ''04.11.2026'') default_filename)))"
proof -
  have m: "DrawString (PInt 40) (PInt 92) (ascii ''Saldo / Balance:'')
     \<in> set (calls (fst (create_zkb_statement A4_points (ascii ''04.11.2026'') default_filename)))"
    by (simp add: A4_points_def create_calls cursors_points(3,5) footer_points)
  have "\<not> above_margin (DrawString (PInt 40) (PInt 92) (ascii ''Saldo / Balance:''))"
    by (simp add: margin_facts)
  with m have "\<not> list_all above_margin
        (calls (fst (create_zkb_statement A4_points (ascii ''04.11.2026'') default_filename)))"
    unfolding list_all_iff by blast
  with m show ?thesis by (simp add: margin_facts)
qed

text \<open>
  C2, as the code has it. The test of the cursor belongs to the record loop: when the
  page is tall enough that \<open>height - 60\<close> is not below 100, every call of the loop draws
  at 100 or above, and an iteration that finds the cursor below 100 starts a new page and
  goes on as if the cursor had been \<open>height - 60\<close>. On the A4 page the header is above the
  margin as well. The closing separator, the balance line and the two disclaimer lines are
  drawn after the loop without the test: in the run they are at 107, 92, 52 and 42.
\<close>

theorem margin_in_loop:
  "(\<not> py_lt (py_sub h (PInt 60)) (PInt 100) \<longrightarrow>
      list_all above_margin (rows_emitted w h txs y))
   \<and> (\<not> py_lt (py_sub h (PInt 60)) (PInt 100) \<and> py_lt y (PInt 100) \<longrightarrow>
        rows_emitted w h (tx # txs) y =
          [ShowPage, SetFont (ascii ''Helvetica'') 9]
          @ rows_emitted w h (tx # txs) (py_sub h (PInt 60)))
   \<and> \<not> py_lt (py_sub (PInt 842) (PInt 60)) (PInt 100)
   \<and> list_all above_margin (header_emitted (PInt 595) (PInt 842) now)
   \<and> calls (fst (create_zkb_statement A4_points now name)) =
       header_emitted (PInt 595) (PInt 842) now
       @ rows_emitted (PInt 595) (PInt 842) transactions (PInt 597)
       @ [Line (PInt 40) (PInt 107) (PInt 555) (PInt 107),
          SetFont (ascii ''Helvetica-Bold'') 10,
          DrawString (PInt 40) (PInt 92) (ascii ''Saldo / Balance:''),
          DrawRightString (PInt 555) (PInt 92) (ascii ''CHF 2'696.40''),
          SetFont (ascii ''Helvetica'') 7,
          DrawString (PInt 40) (PInt 52)
            (ascii ''Z'' @ [252] @ ascii ''rcher Kantonalbank - Alle Angaben ohne Gew''
             @ [228] @ ascii ''hr''),
          DrawString (PInt 40) (PInt 42)
            (ascii ''Bitte pr'' @ [252]
             @ ascii ''fen Sie die Angaben und melden Sie Unstimmigkeiten innert 30 Tagen.''),
          Save]"
proof (intro conjI)
  show "\<not> py_lt (py_sub h (PInt 60)) (PInt 100) \<longrightarrow>
      list_all above_margin (rows_emitted w h txs y)"
    using rows_above_margin by blast
  show "\<not> py_lt (py_sub h (PInt 60)) (PInt 100) \<and> py_lt y (PInt 100) \<longrightarrow>
        rows_emitted w h (tx # txs) y =
          [ShowPage, SetFont (ascii ''Helvetica'') 9]
          @ rows_emitted w h (tx # txs) (py_sub h (PInt 60))"
    using rows_break_reset by blast
  show "\<not> py_lt (py_sub (PInt 842) (PInt 60)) (PInt 100)" by (rule margin_facts)
  show "list_all above_margin (header_emitted (PInt 595) (PInt 842) now)"
    by (rule header_points_above)
qed (simp add: A4_points_def create_calls cursors_points(3,5) footer_points)

theorem margin_in_loop_witness:
  "\<not> py_lt (py_sub (PInt 842) (PInt 60)) (PInt 100)
   \<and> py_lt (PInt 90) (PInt 100)
   \<and> list_all above_margin
        (rows_emitted (PInt 595) (PInt 842)
           [(ascii ''01.01.2026'', ascii ''Coop'', PInt 5)] (PInt 90))
   \<and> rows_emitted (PInt 595) (PInt 842)
        [(ascii ''01.01.2026'', ascii ''Coop'', PInt 5)] (PInt 90) =
        [ShowPage, SetFont (ascii ''Helvetica'') 9]
        @ rows_emitted (PInt 595) (PInt 842)
            [(ascii ''01.01.2026'', ascii ''Coop'', PInt 5)] (py_sub (PInt 842) (PInt 60))"
  using margin_in_loop [where h = "PInt 842" and w = "PInt 595"
      and txs = "[(ascii ''01.01.2026'', ascii ''Coop'', PInt 5)]" and y = "PInt 90"
      and tx = "(ascii ''01.01.2026'', ascii ''Coop'', PInt 5)" and now = "[]" and name = "[]"]
    margin_in_loop [where h = "PInt 842" and w = "PInt 595" and txs = "[]" and y = "PInt 90"
      and tx = "(ascii ''01.01.2026'', ascii ''Coop'', PInt 5)" and now = "[]" and name = "[]"]
    margin_facts
  by simp

lemma script_document:
  "script True A4 now =
     \<lparr>stdout = summary default_filename transactions, status = Exit 0,
      document = Some (fst (create_zkb_statement A4 now default_filename))\<rparr>"
  by (simp add: script_def import_reportlab_def case_prod_beta Let_def)

text \<open>
  C7. A run of the script with the drawing library installed ends with status 0 and
  writes one document, the canvas that \<open>create_zkb_statement\<close> builds when it is called
  without an argument; without the library no document is written. The document has the
  default file name \<open>ZKB_Sample_Statement_January_2026.pdf\<close>, a name without a directory
  part, and \<open>save\<close> is called on it once, as the last call. Its texts are those of the
  header, then the three cells of each of the 32 records, then the balance label and the
  balance, then the two disclaimer lines: the balance label occurs once, after the last
  row.
\<close>

theorem run_writes_one_document:
  "document (script True (w, h) now) =
     Some (fst (create_zkb_statement (w, h) now default_filename))
   \<and> status (script True (w, h) now) = Exit 0
   \<and> document (script False (w, h) now) = None
   \<and> filename (the (document (script True (w, h) now))) =
       ascii ''ZKB_Sample_Statement_January_2026.pdf''
   \<and> 47 \<notin> set (filename (the (document (script True (w, h) now))))
   \<and> filter (\<lambda>k. k = Save) (calls (the (document (script True (w, h) now)))) = [Save]
   \<and> last (calls (the (document (script True (w, h) now)))) = Save
   \<and> texts (calls (the (document (script True (w, h) now)))) =
       texts (header_emitted w h now) @ concat (map row_texts transactions)
       @ [ascii ''Saldo / Balance:'', balance_str transactions,
          ascii ''Z'' @ [252] @ ascii ''rcher Kantonalbank - Alle Angaben ohne Gew''
            @ [228] @ ascii ''hr'',
          ascii ''Bitte pr'' @ [252]
            @ ascii ''fen Sie die Angaben und melden Sie Unstimmigkeiten innert 30 Tagen.'']
   \<and> length (map row_texts transactions) = 32
   \<and> count_list (texts (calls (the (document (script True (w, h) now)))))
        (ascii ''Saldo / Balance:'') = 1"
proof -
  let ?c = "fst (create_zkb_statement (w, h) now default_filename)"
  have d: "document (script True (w, h) now) = Some ?c" by (simp add: script_document)
  have "status (script True (w, h) now) = Exit 0" by (simp add: script_document)
  moreover have "document (script False (w, h) now) = None"
    by (simp add: script_def import_reportlab_def)
  moreover have "filename ?c = ascii ''ZKB_Sample_Statement_January_2026.pdf''"
    by (simp add: rows_count(3))
  moreover have "47 \<notin> set (filename ?c)" using rows_count(2) by simp
  moreover have "filter (\<lambda>k. k = Save) (calls ?c) = [Save]"
    by (simp add: create_calls header_no_save rows_filter_save footer_filter_save)
  moreover have "last (calls ?c) = Save"
    by (simp add: create_calls footer_emitted_eq)
  moreover have "texts (calls ?c) =
       texts (header_emitted w h now) @ concat (map row_texts transactions)
       @ [ascii ''Saldo / Balance:'', balance_str transactions,
          ascii ''Z'' @ [252] @ ascii ''rcher Kantonalbank - Alle Angaben ohne Gew''
            @ [228] @ ascii ''hr'',
          ascii ''Bitte pr'' @ [252]
            @ ascii ''fen Sie die Angaben und melden Sie Unstimmigkeiten innert 30 Tagen.'']"
    by (simp add: create_calls rows_emitted_texts footer_texts)
  moreover have "length (map row_texts transactions) = 32" by (rule rows_count)
  moreover have "count_list (texts (calls ?c)) (ascii ''Saldo / Balance:'') = 1"
    by (simp only: create_calls texts_append count_list_append rows_emitted_texts
        header_count rows_count(1) footer_count)
  ultimately show ?thesis unfolding d option.sel by (intro conjI) (rule refl | assumption)+
qed

text \<open>
  C8. Two runs differ in the clock text only: what is printed, the file name, the page
  size and the number of calls are the same, and the calls of one run are the calls of
  the other with the call at position 10, the line \<open>Erstellt / Created\<close>, replaced.
\<close>

theorem layout_independent_of_clock:
  "snd (create_zkb_statement (w, h) now1 name) = snd (create_zkb_statement (w, h) now2 name)
   \<and> filename (fst (create_zkb_statement (w, h) now1 name)) =
       filename (fst (create_zkb_statement (w, h) now2 name))
   \<and> pagesize (fst (create_zkb_statement (w, h) now1 name)) =
       pagesize (fst (create_zkb_statement (w, h) now2 name))
   \<and> length (calls (fst (create_zkb_statement (w, h) now1 name))) =
       length (calls (fst (create_zkb_statement (w, h) now2 name)))
   \<and> calls (fst (create_zkb_statement (w, h) now1 name)) =
       (calls (fst (create_zkb_statement (w, h) now2 name)))
         [10 := DrawString (PInt 40) (py_sub h (PInt 180))
                  (ascii ''Erstellt / Created: '' @ now1)]
   \<and> calls (fst (create_zkb_statement (w, h) now2 name)) ! 10 =
       DrawString (PInt 40) (py_sub h (PInt 180)) (ascii ''Erstellt / Created: '' @ now2)"
proof (intro conjI)
  show "calls (fst (create_zkb_statement (w, h) now1 name)) =
       (calls (fst (create_zkb_statement (w, h) now2 name)))
         [10 := DrawString (PInt 40) (py_sub h (PInt 180))
                  (ascii ''Erstellt / Created: '' @ now1)]"
    by (simp only: create_calls list_update_append header_update(3))
       (simp add: header_update(1) [of w h now1 now2])
  show "calls (fst (create_zkb_statement (w, h) now2 name)) ! 10 =
       DrawString (PInt 40) (py_sub h (PInt 180)) (ascii ''Erstellt / Created: '' @ now2)"
    by (simp add: create_calls nth_append header_update(2,3))
qed (simp_all add: create_calls header_update(3))

end
